theory Spec2Isabelle
  imports Complex_Main "HOL-Library.Sublist" "HOL-Library.Word"
begin

section \<open>Data model\<close>

text \<open>
  The rows of the roster tables of \<^verbatim>\<open>nba_api.stats.static\<close>, with the keys the
  helpers read: \<^verbatim>\<open>player['id']\<close>, \<^verbatim>\<open>t['full_name']\<close>, \<^verbatim>\<open>t['abbreviation']\<close>,
  \<^verbatim>\<open>t['nickname']\<close>. The key
  \<^verbatim>\<open>'abbreviation'\<close> is the field \<open>abbrev\<close> and the key \<^verbatim>\<open>'id'\<close> the field
  \<open>player_id\<close>, since the source's names are taken.
\<close>

record player =
  player_id :: int
  player_full_name :: string

record team =
  abbrev :: string
  full_name :: string
  nickname :: string

text \<open>
  One row of the game-log data frame, with the columns the helpers read. A missing
  \<^verbatim>\<open>MATCHUP\<close> cell (NaN in pandas) is \<open>None\<close>. The stat columns hold whole numbers,
  which pandas stores as signed 64-bit integers (\<^verbatim>\<open>int64\<close>): a word, read by \<open>sint\<close>.
\<close>

type_synonym int64 = "64 word"

record game_row =
  MATCHUP :: "string option"
  PTS :: int64
  REB :: int64
  AST :: int64
  BLK :: int64
  STL :: int64
  FG3M :: int64

text \<open>
  The external collaborators, taken as parameters: the four static roster lookups and
  the game-log endpoint (player id and season to the rows of the first data frame).
  \<^verbatim>\<open>find_team_by_abbreviation\<close> returns one row or \<^verbatim>\<open>None\<close>; the others return lists.
\<close>

record nba_api =
  find_players_by_full_name :: "string \<Rightarrow> player list"
  find_team_by_abbreviation :: "string \<Rightarrow> team option"
  find_teams_by_full_name :: "string \<Rightarrow> team list"
  find_teams_by_nickname :: "string \<Rightarrow> team list"
  PlayerGameLog :: "int \<Rightarrow> string \<Rightarrow> game_row list"

text \<open>
  Every failure of the helpers is a Python \<^verbatim>\<open>ValueError\<close>; the constructors below are
  its messages, one per \<^verbatim>\<open>raise\<close>, with the values the message interpolates.
  \<open>MultipleTeams\<close> is the message of \<^verbatim>\<open>formula.py\<close> (a joined list of formatted
  strings), \<open>MultipleTeamsRaw\<close> that of \<^verbatim>\<open>percentile.py\<close> (the list of rows itself).
  \<open>ZeroDivisionError\<close> is what a float division by zero raises.
\<close>

datatype error =
  PlayerNotFound string
| MultiplePlayers string "player list"
| TeamNotFound string
| MultipleTeams string "string list"
| MultipleTeamsRaw string "team list"
| NoGames string string
| NoGamesVs string string string
| ZeroDivisionError

text \<open>The three kinds of failure the specification names.\<close>

datatype error_kind = NotFound | Ambiguous | NoData | Arithmetic

fun kind_of :: "error \<Rightarrow> error_kind" where
  "kind_of (PlayerNotFound _) = NotFound"
| "kind_of (MultiplePlayers _ _) = Ambiguous"
| "kind_of (TeamNotFound _) = NotFound"
| "kind_of (MultipleTeams _ _) = Ambiguous"
| "kind_of (MultipleTeamsRaw _ _) = Ambiguous"
| "kind_of (NoGames _ _) = NoData"
| "kind_of (NoGamesVs _ _ _) = NoData"
| "kind_of ZeroDivisionError = Arithmetic"

section \<open>Strings\<close>

text \<open>
  \<^verbatim>\<open>str.upper()\<close> and \<^verbatim>\<open>str.lower()\<close> on ASCII text: the letters change case, every
  other character stays.
\<close>

definition upper_char :: "char \<Rightarrow> char" where
  "upper_char c =
     (let n = (of_char c :: nat) in if 97 \<le> n \<and> n \<le> 122 then char_of (n - 32) else c)"

definition lower_char :: "char \<Rightarrow> char" where
  "lower_char c =
     (let n = (of_char c :: nat) in if 65 \<le> n \<and> n \<le> 90 then char_of (n + 32) else c)"

definition upper :: "string \<Rightarrow> string" where
  "upper s = map upper_char s"

definition lower :: "string \<Rightarrow> string" where
  "lower s = map lower_char s"

text \<open>
  \<^verbatim>\<open>re.search(pat, s, flags=re.IGNORECASE)\<close> for a pattern without regular-expression
  metacharacters (a team abbreviation is three letters): the pattern is tried at every
  start position, characters compared without regard to case.
\<close>

fun match_here :: "string \<Rightarrow> string \<Rightarrow> bool" where
  "match_here [] s = True"
| "match_here (p # ps) [] = False"
| "match_here (p # ps) (c # cs) = (lower_char p = lower_char c \<and> match_here ps cs)"

fun re_search :: "string \<Rightarrow> string \<Rightarrow> bool" where
  "re_search pat [] = match_here pat []"
| "re_search pat (c # cs) = (match_here pat (c # cs) \<or> re_search pat cs)"

text \<open>
  \<^verbatim>\<open>Series.str.contains(pat, case=False, na=False)\<close> on one cell: a missing cell gives
  the \<^verbatim>\<open>na\<close> value \<^verbatim>\<open>False\<close>.
\<close>

definition str_contains :: "string \<Rightarrow> string option \<Rightarrow> bool" where
  "str_contains pat cell = (case cell of None \<Rightarrow> False | Some s \<Rightarrow> re_search pat s)"

section \<open>Player resolution\<close>

text \<open>
  The block that opens \<^verbatim>\<open>get_player_season_stats\<close>, \<^verbatim>\<open>get_player_vs_team_stats\<close>,
  \<^verbatim>\<open>get_player_percentiles_season\<close>, \<^verbatim>\<open>get_player_percentiles_vs_team\<close> and
  \<^verbatim>\<open>get_player_game_log\<close>, the same lines in each:
  \<^verbatim>\<open>
  player_list = players.find_players_by_full_name(player_name)
  if not player_list: raise ValueError(f"Player '{player_name}' not found")
  if len(player_list) > 1: raise ValueError(f"Multiple players found for ...: {player_list}")
  player_id = player_list[0]['id']
  \<close>
\<close>

definition find_player :: "nba_api \<Rightarrow> string \<Rightarrow> error + int" where
  "find_player api player_name =
     (let player_list = find_players_by_full_name api player_name in
      if player_list = [] then Inl (PlayerNotFound player_name)
      else if length player_list > 1 then Inl (MultiplePlayers player_name player_list)
      else Inr (player_id (hd player_list)))"

section \<open>Team resolution\<close>

text \<open>
  The abbreviation stage, shared by both resolvers:
  \<^verbatim>\<open>
  team_list = None
  if len(opponent_team) <= 3:
      team_obj = teams.find_team_by_abbreviation(opponent_team.upper())
      if team_obj: team_list = [team_obj]
  \<close>
  \<^verbatim>\<open>None\<close> and the empty list are both falsy, so \<open>[]\<close> stands for both.
\<close>

definition abbreviation_stage :: "nba_api \<Rightarrow> string \<Rightarrow> team list" where
  "abbreviation_stage api opponent_team =
     (if length opponent_team \<le> 3 then
        (case find_team_by_abbreviation api (upper opponent_team) of
           Some team_obj \<Rightarrow> [team_obj]
         | None \<Rightarrow> [])
      else [])"

text \<open>
  The nickname stage of \<^verbatim>\<open>formula.py\<close>, with its narrowing to exact matches:
  \<^verbatim>\<open>
  team_list = teams.find_teams_by_nickname(opponent_team)
  if team_list and len(team_list) > 1:
      exact_matches = [t for t in team_list if t['nickname'].lower() == opponent_team.lower()]
      if exact_matches: team_list = exact_matches
  \<close>
\<close>

definition nickname_stage :: "nba_api \<Rightarrow> string \<Rightarrow> team list" where
  "nickname_stage api opponent_team =
     (let team_list = find_teams_by_nickname api opponent_team in
      if team_list \<noteq> [] \<and> length team_list > 1 then
        (let exact_matches = filter (\<lambda>t. lower (nickname t) = lower opponent_team) team_list in
         if exact_matches \<noteq> [] then exact_matches else team_list)
      else team_list)"

text \<open>The candidates of \<^verbatim>\<open>get_player_vs_team_stats\<close> (formula.py, lines 122 to 142).\<close>

definition team_list_formula :: "nba_api \<Rightarrow> string \<Rightarrow> team list" where
  "team_list_formula api opponent_team =
     (let team_list = abbreviation_stage api opponent_team;
          team_list = (if team_list = [] then find_teams_by_full_name api opponent_team
                       else team_list);
          team_list = (if team_list = [] then nickname_stage api opponent_team
                       else team_list)
      in team_list)"

text \<open>
  \<^verbatim>\<open>f"{t['full_name']} ({t['abbreviation']})"\<close>, the entry of the message of
  \<^verbatim>\<open>formula.py\<close>.
\<close>

definition team_info :: "team \<Rightarrow> string" where
  "team_info t = full_name t @ '' ('' @ abbrev t @ '')''"

definition find_team_formula :: "nba_api \<Rightarrow> string \<Rightarrow> error + team" where
  "find_team_formula api opponent_team =
     (let team_list = team_list_formula api opponent_team in
      if team_list = [] then Inl (TeamNotFound opponent_team)
      else if length team_list > 1 then
        Inl (MultipleTeams opponent_team (map team_info team_list))
      else Inr (hd team_list))"

text \<open>
  The candidates of \<^verbatim>\<open>get_player_percentiles_vs_team\<close> (percentile.py, lines 209 to
  224): the nickname lookup comes second and the full-name lookup third, and the
  nickname result is not narrowed.
\<close>

definition team_list_percentile :: "nba_api \<Rightarrow> string \<Rightarrow> team list" where
  "team_list_percentile api opponent_team =
     (let team_list = abbreviation_stage api opponent_team;
          team_list = (if team_list = [] then find_teams_by_nickname api opponent_team
                       else team_list);
          team_list = (if team_list = [] then find_teams_by_full_name api opponent_team
                       else team_list)
      in team_list)"

definition find_team_percentile :: "nba_api \<Rightarrow> string \<Rightarrow> error + team" where
  "find_team_percentile api opponent_team =
     (let team_list = team_list_percentile api opponent_team in
      if team_list = [] then Inl (TeamNotFound opponent_team)
      else if length team_list > 1 then Inl (MultipleTeamsRaw opponent_team team_list)
      else Inr (hd team_list))"

section \<open>Numbers\<close>

text \<open>
  A float of numpy or pandas: a real number, or NaN. Rounding is not modelled; what
  is modelled is which inputs give NaN and which raise.
\<close>

datatype npfloat = NaN | Fl real

text \<open>
  The values of an integer column as floats. pandas sums an integer column in float64
  and converts it to float64 before taking deviations, so neither the mean nor the
  standard deviation wraps around.
\<close>

definition to_float :: "int64 list \<Rightarrow> real list" where
  "to_float xs = map (\<lambda>x. real_of_int (sint x)) xs"

text \<open>\<^verbatim>\<open>Series.mean()\<close>: the sum over the count; NaN on an empty column.\<close>

definition series_mean :: "int64 list \<Rightarrow> npfloat" where
  "series_mean xs =
     (if xs = [] then NaN else Fl (sum_list (to_float xs) / real (length xs)))"

text \<open>
  \<^verbatim>\<open>Series.std()\<close>, called with no argument, so with pandas' default \<^verbatim>\<open>ddof=1\<close>:
  the square root of the sum of squared deviations from the mean over \<open>count - ddof\<close>,
  and NaN when \<open>count \<le> ddof\<close>.
\<close>

definition series_std :: "int64 list \<Rightarrow> npfloat" where
  "series_std xs =
     (let count = length xs; ddof = 1 in
      if count \<le> ddof then NaN
      else
        (let values = to_float xs;
             avg = sum_list values / real count;
             sqr = sum_list (map (\<lambda>x. (avg - x)\<^sup>2) values)
         in Fl (sqrt (sqr / real (count - ddof)))))"

text \<open>
  numpy's \<^verbatim>\<open>_lerp(a, b, t)\<close> on two elements of an \<^verbatim>\<open>int64\<close> array:
  \<^verbatim>\<open>
  diff_b_a = subtract(b, a)
  lerp_interpolation = add(a, diff_b_a * t)
  subtract(b, diff_b_a * (1 - t), out=lerp_interpolation, where=t >= 0.5)
  \<close>
  The difference is taken in \<^verbatim>\<open>int64\<close>, where it wraps around; the products and sums
  are floats.
\<close>

definition lerp :: "int64 \<Rightarrow> int64 \<Rightarrow> real \<Rightarrow> real" where
  "lerp a b t =
     (let diff_b_a = real_of_int (sint (b - a)) in
      if t \<ge> 1 / 2 then real_of_int (sint b) - diff_b_a * (1 - t)
      else real_of_int (sint a) + diff_b_a * t)"

text \<open>
  \<^verbatim>\<open>np.percentile(data, q)\<close> with numpy's default method (linear): on the values
  sorted as signed integers, the virtual index \<open>(n - 1) * q / 100\<close>, the elements at
  its floor and at the next index (both clipped to the array), and \<^verbatim>\<open>_lerp\<close> between
  them by the fractional part. NaN on an empty array.
\<close>

definition lerp_at :: "int64 list \<Rightarrow> real \<Rightarrow> real" where
  "lerp_at arr virtual_index =
     (let n = length arr;
          previous_index = nat \<lfloor>virtual_index\<rfloor>;
          gamma = virtual_index - real previous_index;
          previous = arr ! (min previous_index (n - 1));
          next = arr ! (min (previous_index + 1) (n - 1))
      in lerp previous next gamma)"

definition np_percentile :: "int64 list \<Rightarrow> real \<Rightarrow> npfloat" where
  "np_percentile data q =
     (if data = [] then NaN
      else Fl (lerp_at (sort_key sint data) (real (length data - 1) * (q / 100))))"

text \<open>
  The arithmetic of the coefficient of variation. Division raises on a zero divisor,
  as Python's float division does; NaN propagates; a comparison with NaN is false.
\<close>

definition float_div :: "npfloat \<Rightarrow> npfloat \<Rightarrow> error + npfloat" where
  "float_div a b =
     (case b of
        NaN \<Rightarrow> Inr NaN
      | Fl y \<Rightarrow>
          if y = 0 then Inl ZeroDivisionError
          else (case a of NaN \<Rightarrow> Inr NaN | Fl x \<Rightarrow> Inr (Fl (x / y))))"

definition float_mul :: "real \<Rightarrow> npfloat \<Rightarrow> npfloat" where
  "float_mul k a = (case a of NaN \<Rightarrow> NaN | Fl x \<Rightarrow> Fl (k * x))"

definition float_gt :: "npfloat \<Rightarrow> real \<Rightarrow> bool" where
  "float_gt a k = (case a of NaN \<Rightarrow> False | Fl x \<Rightarrow> x > k)"

text \<open>
  \<^verbatim>\<open>100 * (std / avg) if avg > 0 else 0\<close>, the expression of
  \<^verbatim>\<open>print_player_season_stats\<close>, \<^verbatim>\<open>print_player_vs_team_stats\<close> and
  \<^verbatim>\<open>create_stat_card\<close>.
\<close>

definition cv :: "npfloat \<Rightarrow> npfloat \<Rightarrow> error + npfloat" where
  "cv avg std =
     (if float_gt avg 0 then
        (case float_div std avg of Inl e \<Rightarrow> Inl e | Inr r \<Rightarrow> Inr (float_mul 100 r))
      else Inr (Fl 0))"

section \<open>Aggregation\<close>

text \<open>
  The dictionary both functions of \<^verbatim>\<open>formula.py\<close> return. The inner dictionaries are
  maps from their keys.
\<close>

record stats =
  averages :: "string \<rightharpoonup> npfloat"
  std_devs :: "string \<rightharpoonup> npfloat"
  games_played :: nat

definition calc_stats :: "game_row list \<Rightarrow> stats" where
  "calc_stats df =
     \<lparr>averages =
        [''points'' \<mapsto> series_mean (map PTS df),
         ''rebounds'' \<mapsto> series_mean (map REB df),
         ''assists'' \<mapsto> series_mean (map AST df),
         ''blocks'' \<mapsto> series_mean (map BLK df),
         ''steals'' \<mapsto> series_mean (map STL df),
         ''3pt'' \<mapsto> series_mean (map FG3M df)],
      std_devs =
        [''points'' \<mapsto> series_std (map PTS df),
         ''rebounds'' \<mapsto> series_std (map REB df),
         ''assists'' \<mapsto> series_std (map AST df),
         ''blocks'' \<mapsto> series_std (map BLK df),
         ''steals'' \<mapsto> series_std (map STL df),
         ''3pt'' \<mapsto> series_std (map FG3M df)],
      games_played = length df\<rparr>"

text \<open>
  The dictionary both functions of \<^verbatim>\<open>percentile.py\<close> return; the key
  \<^verbatim>\<open>'games_played'\<close> is the field \<open>n_games\<close>, and \<^verbatim>\<open>'opponent'\<close> is absent from
  the season result.
\<close>

record pct =
  p25th :: npfloat
  p50th :: npfloat
  p75th :: npfloat
  p100th :: npfloat

record percentile_result =
  percentiles :: "string \<rightharpoonup> pct"
  raw_data :: "string \<rightharpoonup> int64 list"
  player_name :: string
  season :: string
  opponent :: "string option"
  n_games :: nat

text \<open>\<^verbatim>\<open>zip(stats, stat_names)\<close>, each column as its selector.\<close>

definition stat_columns :: "((game_row \<Rightarrow> int64) \<times> string) list" where
  "stat_columns =
     [(PTS, ''points''), (REB, ''rebounds''), (AST, ''assists''), (BLK, ''blocks''),
      (STL, ''steals'')]"

text \<open>The four percentiles of one column, the inner dictionary of the loop.\<close>

definition pct_of :: "int64 list \<Rightarrow> pct" where
  "pct_of data =
     \<lparr>p25th = np_percentile data 25,
      p50th = np_percentile data 50,
      p75th = np_percentile data 75,
      p100th = np_percentile data 100\<rparr>"

text \<open>One round of the loop over the columns.\<close>

definition percentile_step ::
  "game_row list \<Rightarrow> percentile_result \<Rightarrow> (game_row \<Rightarrow> int64) \<times> string \<Rightarrow> percentile_result" where
  "percentile_step df result sn =
     (let data = map (fst sn) df in
      result\<lparr>percentiles := (percentiles result)(snd sn \<mapsto> pct_of data),
             raw_data := (raw_data result)(snd sn \<mapsto> data)\<rparr>)"

definition calc_percentiles ::
  "game_row list \<Rightarrow> string \<Rightarrow> string \<Rightarrow> string option \<Rightarrow> percentile_result" where
  "calc_percentiles df pname seas opp =
     foldl (percentile_step df)
       \<lparr>percentiles = Map.empty, raw_data = Map.empty, player_name = pname,
        season = seas, opponent = opp, n_games = length df\<rparr>
       stat_columns"

section \<open>The opponent filter\<close>

text \<open>
  \<^verbatim>\<open>
  df_vs_team = df[df['MATCHUP'].str.contains(opponent_abbrev, case=False, na=False)]
  if df_vs_team.empty: raise ValueError(f"No games found for ... vs ... in ... season")
  \<close>
  the same two statements in \<^verbatim>\<open>get_player_vs_team_stats\<close> and
  \<^verbatim>\<open>get_player_percentiles_vs_team\<close>.
\<close>

definition filter_vs_team ::
  "string \<Rightarrow> string \<Rightarrow> string \<Rightarrow> string \<Rightarrow> game_row list \<Rightarrow> error + game_row list" where
  "filter_vs_team pname opponent_team seas opponent_abbrev df =
     (let df_vs_team = filter (\<lambda>g. str_contains opponent_abbrev (MATCHUP g)) df in
      if df_vs_team = [] then Inl (NoGamesVs pname opponent_team seas)
      else Inr df_vs_team)"

text \<open>
  The rule as the specification words it: the matchup string is present and, both
  sides lower-cased, holds the abbreviation as a contiguous substring.
\<close>

definition contains_ci :: "string \<Rightarrow> string option \<Rightarrow> bool" where
  "contains_ci a cell =
     (case cell of None \<Rightarrow> False | Some m \<Rightarrow> sublist (lower a) (lower m))"

section \<open>The five entry points\<close>

text \<open>
  The fetch that follows player resolution in every entry point:
  \<^verbatim>\<open>
  df = gamelog.get_data_frames()[0]
  if df.empty: raise ValueError(f"No games found for {player_name} in {season} season")
  \<close>
\<close>

definition fetch_games :: "nba_api \<Rightarrow> int \<Rightarrow> string \<Rightarrow> string \<Rightarrow> error + game_row list" where
  "fetch_games api pid pname seas =
     (let df = PlayerGameLog api pid seas in
      if df = [] then Inl (NoGames pname seas) else Inr df)"

definition get_player_game_log :: "nba_api \<Rightarrow> string \<Rightarrow> string \<Rightarrow> error + game_row list" where
  "get_player_game_log api pname seas =
     (case find_player api pname of
        Inl e \<Rightarrow> Inl e
      | Inr pid \<Rightarrow> fetch_games api pid pname seas)"

definition get_player_season_stats :: "nba_api \<Rightarrow> string \<Rightarrow> string \<Rightarrow> error + stats" where
  "get_player_season_stats api pname seas =
     (case find_player api pname of
        Inl e \<Rightarrow> Inl e
      | Inr pid \<Rightarrow>
          (case fetch_games api pid pname seas of
             Inl e \<Rightarrow> Inl e
           | Inr df \<Rightarrow> Inr (calc_stats df)))"

definition get_player_vs_team_stats ::
  "nba_api \<Rightarrow> string \<Rightarrow> string \<Rightarrow> string \<Rightarrow> error + stats" where
  "get_player_vs_team_stats api pname seas opponent_team =
     (case find_player api pname of
        Inl e \<Rightarrow> Inl e
      | Inr pid \<Rightarrow>
          (case find_team_formula api opponent_team of
             Inl e \<Rightarrow> Inl e
           | Inr t \<Rightarrow>
               (case fetch_games api pid pname seas of
                  Inl e \<Rightarrow> Inl e
                | Inr df \<Rightarrow>
                    (case filter_vs_team pname opponent_team seas (abbrev t) df of
                       Inl e \<Rightarrow> Inl e
                     | Inr df_vs_team \<Rightarrow> Inr (calc_stats df_vs_team)))))"

definition get_player_percentiles_season ::
  "nba_api \<Rightarrow> string \<Rightarrow> string \<Rightarrow> error + percentile_result" where
  "get_player_percentiles_season api pname seas =
     (case find_player api pname of
        Inl e \<Rightarrow> Inl e
      | Inr pid \<Rightarrow>
          (case fetch_games api pid pname seas of
             Inl e \<Rightarrow> Inl e
           | Inr df \<Rightarrow> Inr (calc_percentiles df pname seas None)))"

definition get_player_percentiles_vs_team ::
  "nba_api \<Rightarrow> string \<Rightarrow> string \<Rightarrow> string \<Rightarrow> error + percentile_result" where
  "get_player_percentiles_vs_team api pname seas opponent_team =
     (case find_player api pname of
        Inl e \<Rightarrow> Inl e
      | Inr pid \<Rightarrow>
          (case find_team_percentile api opponent_team of
             Inl e \<Rightarrow> Inl e
           | Inr t \<Rightarrow>
               (case fetch_games api pid pname seas of
                  Inl e \<Rightarrow> Inl e
                | Inr df \<Rightarrow>
                    (case filter_vs_team pname opponent_team seas (abbrev t) df of
                       Inl e \<Rightarrow> Inl e
                     | Inr df_vs_team \<Rightarrow>
                         Inr (calc_percentiles df_vs_team pname seas (Some (full_name t)))))))"

section \<open>A roster for evaluation\<close>

text \<open>
  An instance of the interface over given tables, with the searches of
  \<^verbatim>\<open>nba_api.stats.static\<close>: a case-insensitive search of the pattern in the column,
  and for the abbreviation the pattern anchored at both ends, that is equality up to
  case. It serves to run the entry points at concrete inputs.
\<close>

definition static_api ::
  "player list \<Rightarrow> team list \<Rightarrow> (int \<Rightarrow> string \<Rightarrow> game_row list) \<Rightarrow> nba_api" where
  "static_api ps ts gamelog =
     \<lparr>find_players_by_full_name = (\<lambda>pat. filter (\<lambda>p. re_search pat (player_full_name p)) ps),
      find_team_by_abbreviation = (\<lambda>a. find (\<lambda>t. lower (abbrev t) = lower a) ts),
      find_teams_by_full_name = (\<lambda>pat. filter (\<lambda>t. re_search pat (full_name t)) ts),
      find_teams_by_nickname = (\<lambda>pat. filter (\<lambda>t. re_search pat (nickname t)) ts),
      PlayerGameLog = gamelog\<rparr>"

definition some_teams :: "team list" where
  "some_teams =
     [\<lparr>abbrev = ''BOS'', full_name = ''Boston Celtics'', nickname = ''Celtics''\<rparr>,
      \<lparr>abbrev = ''BKN'', full_name = ''Brooklyn Nets'', nickname = ''Nets''\<rparr>,
      \<lparr>abbrev = ''CHA'', full_name = ''Charlotte Hornets'', nickname = ''Hornets''\<rparr>,
      \<lparr>abbrev = ''DET'', full_name = ''Detroit Pistons'', nickname = ''Pistons''\<rparr>,
      \<lparr>abbrev = ''GSW'', full_name = ''Golden State Warriors'', nickname = ''Warriors''\<rparr>,
      \<lparr>abbrev = ''HOU'', full_name = ''Houston Rockets'', nickname = ''Rockets''\<rparr>,
      \<lparr>abbrev = ''LAL'', full_name = ''Los Angeles Lakers'', nickname = ''Lakers''\<rparr>]"

definition some_players :: "player list" where
  "some_players =
     [\<lparr>player_id = 2544, player_full_name = ''LeBron James''\<rparr>,
      \<lparr>player_id = 201939, player_full_name = ''Stephen Curry''\<rparr>,
      \<lparr>player_id = 203552, player_full_name = ''Seth Curry''\<rparr>]"

definition game :: "string \<Rightarrow> int64 \<Rightarrow> game_row" where
  "game m p = \<lparr>MATCHUP = Some m, PTS = p, REB = 0, AST = 0, BLK = 0, STL = 0, FG3M = 0\<rparr>"

section \<open>Properties the specification words\<close>

text \<open>
  The sample standard deviation: the square root of the sum of squared deviations from
  the mean, over the number of values minus one.
\<close>

definition sample_std :: "real list \<Rightarrow> real" where
  "sample_std xs =
     sqrt ((\<Sum>x\<leftarrow>xs. (x - sum_list xs / real (length xs))\<^sup>2) / (real (length xs) - 1))"








section \<open>Auxiliary facts\<close>

lemma match_here_prefix: "match_here pat s \<longleftrightarrow> prefix (lower pat) (lower s)"
  by (induction pat s rule: match_here.induct) (simp_all add: lower_def)

lemma re_search_sublist: "re_search pat s \<longleftrightarrow> sublist (lower pat) (lower s)"
proof (induction s)
  case Nil
  show ?case by (cases pat) (simp_all add: lower_def)
next
  case (Cons c cs)
  have "sublist (lower pat) (lower (c # cs)) \<longleftrightarrow>
        prefix (lower pat) (lower (c # cs)) \<or> sublist (lower pat) (lower cs)"
    by (simp add: lower_def sublist_Cons_right)
  with Cons show ?case by (simp add: match_here_prefix)
qed





















lemma str_contains_ci: "str_contains a cell = contains_ci a cell"
  by (simp add: str_contains_def contains_ci_def re_search_sublist split: option.splits)

lemma matchup_example:
  "filter_vs_team pn ot se ''GSW''
      [game ''LAL vs. GSW'' 1, game ''LAL @ BOS'' 2, game ''LAL vs. GSW'' 3] =
    Inr [game ''LAL vs. GSW'' 1, game ''LAL vs. GSW'' 3]"
  by code_simp














lemma length_to_float: "length (to_float xs) = length xs"
  by (simp add: to_float_def)

lemma series_std_sample:
  "series_std xs = (if length xs > 1 then Fl (sample_std (to_float xs)) else NaN)"
proof (cases "length xs > 1")
  case True
  have sq: "(a - b)\<^sup>2 = (b - a)\<^sup>2" for a b :: real by (simp add: power2_commute)
  have "real (length xs - 1) = real (length xs) - 1" using True by (simp add: of_nat_diff)
  with True show ?thesis
    by (simp add: series_std_def sample_std_def Let_def length_to_float
        sq[of "sum_list (to_float xs) / real (length xs)"])
next
  case False
  then show ?thesis by (simp add: series_std_def Let_def)
qed

lemma std_devs_calc:
  "std_devs (calc_stats df) ''points'' = Some (series_std (map PTS df))"
  "std_devs (calc_stats df) ''rebounds'' = Some (series_std (map REB df))"
  "std_devs (calc_stats df) ''assists'' = Some (series_std (map AST df))"
  "std_devs (calc_stats df) ''blocks'' = Some (series_std (map BLK df))"
  "std_devs (calc_stats df) ''steals'' = Some (series_std (map STL df))"
  "std_devs (calc_stats df) ''3pt'' = Some (series_std (map FG3M df))"
  by (simp_all add: calc_stats_def)

lemma season_stats_Inr:
  assumes "get_player_season_stats api pn se = Inr st"
  shows "\<exists>pid. find_player api pn = Inr pid \<and> PlayerGameLog api pid se \<noteq> [] \<and>
           st = calc_stats (PlayerGameLog api pid se)"
  using assms
  by (simp add: get_player_season_stats_def fetch_games_def Let_def split: sum.splits if_splits)

lemma team_list_formula_order:
  "team_list_formula api x =
     (if abbreviation_stage api x \<noteq> [] then abbreviation_stage api x
      else if find_teams_by_full_name api x \<noteq> [] then find_teams_by_full_name api x
      else nickname_stage api x)"
  by (simp add: team_list_formula_def Let_def)

lemma team_list_percentile_order:
  "team_list_percentile api x =
     (if abbreviation_stage api x \<noteq> [] then abbreviation_stage api x
      else if find_teams_by_nickname api x \<noteq> [] then find_teams_by_nickname api x
      else find_teams_by_full_name api x)"
  by (simp add: team_list_percentile_def Let_def)

lemma formula_nickname_stage_narrows:
  assumes "abbreviation_stage api x = []" "find_teams_by_full_name api x = []"
    and "length (find_teams_by_nickname api x) > 1"
  shows "team_list_formula api x =
     (let exact = filter (\<lambda>t. lower (nickname t) = lower x) (find_teams_by_nickname api x)
      in if exact \<noteq> [] then exact else find_teams_by_nickname api x)"
    and "length (team_list_formula api x) > 1 \<Longrightarrow>
      find_team_formula api x = Inl (MultipleTeams x (map team_info (team_list_formula api x)))"
  using assms by (auto simp: team_list_formula_order nickname_stage_def find_team_formula_def Let_def)



section \<open>Player resolution: one match, none, several\<close>



section \<open>The opponent filter: which games, in which order\<close>

text \<open>
  Claim C4. For every list of games and every abbreviation, the filter returns exactly
  the games whose matchup string contains the abbreviation as a case-insensitive
  substring, in their original order, and fails with the no-data error when no game
  does. For the matchups LAL vs. GSW, LAL @ BOS, LAL vs. GSW and the abbreviation GSW
  it returns the first and the third game, in that order.
\<close>

theorem filter_vs_team_exact:
  "filter_vs_team pn ot se a df =
     (if \<forall>g\<in>set df. \<not> contains_ci a (MATCHUP g) then Inl (NoGamesVs pn ot se)
      else Inr (filter (\<lambda>g. contains_ci a (MATCHUP g)) df)) \<and>
   kind_of (NoGamesVs pn ot se) = NoData \<and>
   filter_vs_team pn ot se ''GSW''
      [game ''LAL vs. GSW'' 1, game ''LAL @ BOS'' 2, game ''LAL vs. GSW'' 3] =
    Inr [game ''LAL vs. GSW'' 1, game ''LAL vs. GSW'' 3]"
proof -
  have "filter_vs_team pn ot se a df =
     (if \<forall>g\<in>set df. \<not> contains_ci a (MATCHUP g) then Inl (NoGamesVs pn ot se)
      else Inr (filter (\<lambda>g. contains_ci a (MATCHUP g)) df))"
    by (simp add: filter_vs_team_def Let_def str_contains_ci filter_empty_conv)
  then show ?thesis using matchup_example by simp
qed

theorem filter_vs_team_exact_witness:
  "filter_vs_team ''LeBron James'' ''Celtics'' ''2023-24'' ''bos''
      [game ''LAL vs. GSW'' 1, game ''LAL @ BOS'' 2] = Inr [game ''LAL @ BOS'' 2] \<and>
   filter_vs_team ''LeBron James'' ''Pistons'' ''2023-24'' ''DET''
      [game ''LAL vs. GSW'' 1, game ''LAL @ BOS'' 2] =
     Inl (NoGamesVs ''LeBron James'' ''Pistons'' ''2023-24'')"
proof -
  let ?df = "[game ''LAL vs. GSW'' 1, game ''LAL @ BOS'' 2]"
  have a: "\<not> (\<forall>g\<in>set ?df. \<not> contains_ci ''bos'' (MATCHUP g))"
    by code_simp
  have b: "filter (\<lambda>g. contains_ci ''bos'' (MATCHUP g)) ?df = [game ''LAL @ BOS'' 2]"
    by code_simp
  have c: "\<forall>g\<in>set ?df. \<not> contains_ci ''DET'' (MATCHUP g)"
    by code_simp
  have 1: "filter_vs_team ''LeBron James'' ''Celtics'' ''2023-24'' ''bos'' ?df =
     Inr [game ''LAL @ BOS'' 2]"
    using filter_vs_team_exact[of "''LeBron James''" "''Celtics''" "''2023-24''" "''bos''" ?df]
      a b
    by (simp only: if_False)
  have 2: "filter_vs_team ''LeBron James'' ''Pistons'' ''2023-24'' ''DET'' ?df =
     Inl (NoGamesVs ''LeBron James'' ''Pistons'' ''2023-24'')"
    using filter_vs_team_exact[of "''LeBron James''" "''Pistons''" "''2023-24''" "''DET''" ?df]
      c
    by (simp only: if_P)
  show ?thesis using 1 2 by (rule conjI)
qed

section \<open>The opponent filter: missing matchup strings\<close>

text \<open>
  Claim C9. A missing matchup cell never matches: a game whose matchup string is
  missing changes nothing in the filter's result wherever it stands in the list, no
  game of a result has a missing matchup string, and on every input the filter either
  returns games or fails with the no-data error, never with another one.
\<close>

theorem missing_matchup_excluded:
  "\<not> str_contains a None \<and>
   (MATCHUP g = None \<longrightarrow>
      filter_vs_team pn ot se a (xs @ g # ys) = filter_vs_team pn ot se a (xs @ ys)) \<and>
   (filter_vs_team pn ot se a df = Inr r \<longrightarrow> (\<forall>g\<in>set r. MATCHUP g \<noteq> None)) \<and>
   (\<exists>r. filter_vs_team pn ot se a df = Inr r \<or>
        filter_vs_team pn ot se a df = Inl (NoGamesVs pn ot se))"
  by (auto simp: filter_vs_team_def Let_def str_contains_def split: if_splits option.splits)

theorem missing_matchup_excluded_witness:
  "filter_vs_team ''LeBron James'' ''Warriors'' ''2023-24'' ''GSW''
     ([game ''LAL vs. GSW'' 1] @
      \<lparr>MATCHUP = None, PTS = 7, REB = 0, AST = 0, BLK = 0, STL = 0, FG3M = 0\<rparr> #
      [game ''LAL @ BOS'' 2]) =
   Inr [game ''LAL vs. GSW'' 1]"
proof -
  let ?g = "\<lparr>MATCHUP = None, PTS = 7, REB = 0, AST = 0, BLK = 0, STL = 0, FG3M = 0\<rparr>"
  have m: "MATCHUP ?g = None" by simp
  have e: "filter_vs_team ''LeBron James'' ''Warriors'' ''2023-24'' ''GSW''
     ([game ''LAL vs. GSW'' 1] @ [game ''LAL @ BOS'' 2]) = Inr [game ''LAL vs. GSW'' 1]"
    by code_simp
  show ?thesis
    using missing_matchup_excluded[of "''GSW''" ?g "''LeBron James''" "''Warriors''"
        "''2023-24''" "[game ''LAL vs. GSW'' 1]" "[game ''LAL @ BOS'' 2]"] m e
    by simp
qed

section \<open>Percentiles: linear interpolation\<close>




section \<open>Percentiles: the result is consistent\<close>





section \<open>An empty game set is an error\<close>

text \<open>
  Claim C8. When the player resolves and the provider returns no games, all five entry
  points fail with the no-games error, whose kind is no-data (the two opponent entry
  points once the team resolves, and never with a result); and when no game of the
  season matches the opponent, the two opponent entry points fail with an error of
  kind no-data.
\<close>

theorem empty_game_log_is_no_data:
  "(find_player api pn = Inr pid \<and> PlayerGameLog api pid se = [] \<longrightarrow>
      get_player_game_log api pn se = Inl (NoGames pn se) \<and>
      get_player_season_stats api pn se = Inl (NoGames pn se) \<and>
      get_player_percentiles_season api pn se = Inl (NoGames pn se) \<and>
      (find_team_formula api ot = Inr t \<longrightarrow>
         get_player_vs_team_stats api pn se ot = Inl (NoGames pn se)) \<and>
      (find_team_percentile api ot = Inr t \<longrightarrow>
         get_player_percentiles_vs_team api pn se ot = Inl (NoGames pn se)) \<and>
      (\<forall>r. get_player_vs_team_stats api pn se ot \<noteq> Inr r) \<and>
      (\<forall>r. get_player_percentiles_vs_team api pn se ot \<noteq> Inr r)) \<and>
   kind_of (NoGames pn se) = NoData \<and>
   (find_player api pn = Inr pid \<and> find_team_formula api ot = Inr t \<and>
    (\<forall>g\<in>set (PlayerGameLog api pid se). \<not> str_contains (abbrev t) (MATCHUP g)) \<longrightarrow>
      (\<exists>e. get_player_vs_team_stats api pn se ot = Inl e \<and> kind_of e = NoData)) \<and>
   (find_player api pn = Inr pid \<and> find_team_percentile api ot = Inr t \<and>
    (\<forall>g\<in>set (PlayerGameLog api pid se). \<not> str_contains (abbrev t) (MATCHUP g)) \<longrightarrow>
      (\<exists>e. get_player_percentiles_vs_team api pn se ot = Inl e \<and> kind_of e = NoData))"
proof -
  have A: "get_player_game_log api pn se = Inl (NoGames pn se) \<and>
      get_player_season_stats api pn se = Inl (NoGames pn se) \<and>
      get_player_percentiles_season api pn se = Inl (NoGames pn se) \<and>
      (find_team_formula api ot = Inr t \<longrightarrow>
         get_player_vs_team_stats api pn se ot = Inl (NoGames pn se)) \<and>
      (find_team_percentile api ot = Inr t \<longrightarrow>
         get_player_percentiles_vs_team api pn se ot = Inl (NoGames pn se)) \<and>
      (\<forall>r. get_player_vs_team_stats api pn se ot \<noteq> Inr r) \<and>
      (\<forall>r. get_player_percentiles_vs_team api pn se ot \<noteq> Inr r)"
    if "find_player api pn = Inr pid" "PlayerGameLog api pid se = []"
    using that
    by (simp add: get_player_game_log_def get_player_season_stats_def
        get_player_percentiles_season_def get_player_vs_team_stats_def
        get_player_percentiles_vs_team_def fetch_games_def Let_def split: sum.splits)
  have f: "filter_vs_team pn ot se a df = Inl (NoGamesVs pn ot se)"
    if "\<forall>g\<in>set df. \<not> str_contains a (MATCHUP g)" for a df
    using that by (simp add: filter_vs_team_def Let_def filter_empty_conv)
  have B: "\<exists>e. get_player_vs_team_stats api pn se ot = Inl e \<and> kind_of e = NoData"
    if "find_player api pn = Inr pid" "find_team_formula api ot = Inr t"
      "\<forall>g\<in>set (PlayerGameLog api pid se). \<not> str_contains (abbrev t) (MATCHUP g)"
    using that f[OF that(3)]
    by (simp add: get_player_vs_team_stats_def fetch_games_def Let_def)
  have C: "\<exists>e. get_player_percentiles_vs_team api pn se ot = Inl e \<and> kind_of e = NoData"
    if "find_player api pn = Inr pid" "find_team_percentile api ot = Inr t"
      "\<forall>g\<in>set (PlayerGameLog api pid se). \<not> str_contains (abbrev t) (MATCHUP g)"
    using that f[OF that(3)]
    by (simp add: get_player_percentiles_vs_team_def fetch_games_def Let_def)
  show ?thesis
    apply (intro conjI)
    subgoal using A by blast
    subgoal by simp
    subgoal using B by blast
    subgoal using C by blast
    done
qed

theorem empty_game_log_is_no_data_witness:
  "get_player_game_log (static_api some_players some_teams (\<lambda>p s. []))
     ''LeBron James'' ''2023-24'' = Inl (NoGames ''LeBron James'' ''2023-24'') \<and>
   get_player_season_stats (static_api some_players some_teams (\<lambda>p s. []))
     ''LeBron James'' ''2023-24'' = Inl (NoGames ''LeBron James'' ''2023-24'') \<and>
   get_player_percentiles_season (static_api some_players some_teams (\<lambda>p s. []))
     ''LeBron James'' ''2023-24'' = Inl (NoGames ''LeBron James'' ''2023-24'') \<and>
   get_player_vs_team_stats (static_api some_players some_teams (\<lambda>p s. []))
     ''LeBron James'' ''2023-24'' ''GSW'' = Inl (NoGames ''LeBron James'' ''2023-24'') \<and>
   get_player_percentiles_vs_team (static_api some_players some_teams (\<lambda>p s. []))
     ''LeBron James'' ''2023-24'' ''GSW'' = Inl (NoGames ''LeBron James'' ''2023-24'')"
proof -
  let ?api = "static_api some_players some_teams (\<lambda>p s. [])"
  let ?gsw = "\<lparr>abbrev = ''GSW'', full_name = ''Golden State Warriors'', nickname = ''Warriors''\<rparr>"
  have fp: "find_player ?api ''LeBron James'' = Inr 2544" by code_simp
  have pg: "PlayerGameLog ?api 2544 ''2023-24'' = []" by (simp add: static_api_def)
  have tf: "find_team_formula ?api ''GSW'' = Inr ?gsw" by code_simp
  have tp: "find_team_percentile ?api ''GSW'' = Inr ?gsw" by code_simp
  show ?thesis
    using empty_game_log_is_no_data[of ?api "''LeBron James''" 2544 "''2023-24''" "''GSW''" ?gsw]
      fp pg tf tp
    by blast
qed

section \<open>Coefficient of variation\<close>

text \<open>
  Claim C3. Computing the coefficient of variation never raises: it is 100 times the
  standard deviation over the mean when the mean is positive (NaN when the standard
  deviation is NaN), and 0 when the mean is 0; in particular it never raises on the
  mean and standard deviation of any column of games.
\<close>

theorem cv_never_raises:
  "(\<forall>e. cv avg std \<noteq> Inl e) \<and>
   (avg = Fl m \<and> 0 < m \<and> std = Fl s \<longrightarrow> cv avg std = Inr (Fl (100 * (s / m)))) \<and>
   (avg = Fl m \<and> 0 < m \<and> std = NaN \<longrightarrow> cv avg std = Inr NaN) \<and>
   (avg = Fl 0 \<longrightarrow> cv avg std = Inr (Fl 0)) \<and>
   (\<forall>e. cv (series_mean xs) (series_std xs) \<noteq> Inl e)"
  by (auto simp: cv_def float_gt_def float_div_def float_mul_def split: npfloat.splits)

theorem cv_never_raises_witness:
  "cv (Fl 2) (Fl 1) = Inr (Fl 50) \<and> cv (Fl 0) (Fl 1) = Inr (Fl 0) \<and> cv (Fl 30) NaN = Inr NaN"
  using cv_never_raises[of "Fl 2" "Fl 1" 2 1] cv_never_raises[of "Fl 0" "Fl 1"]
    cv_never_raises[of "Fl 30" NaN 30]
  by simp

section \<open>Standard deviation: the sample convention, and one game\<close>

text \<open>
  Claim C2, as the code has it. With more than one game the standard deviation of each
  field is the sample standard deviation (denominator \<open>n - 1\<close>); with exactly one
  game it is NaN, not 0: pandas divides by \<open>count - ddof\<close> and answers NaN when that
  is not positive, and the helpers pass the value on unchanged. A successful season
  query is computed from the non-empty game log of the resolved player.
\<close>

theorem std_dev_sample_or_nan:
  "std_devs (calc_stats df) ''points'' =
     Some (if length df > 1 then Fl (sample_std (to_float (map PTS df))) else NaN) \<and>
   std_devs (calc_stats df) ''rebounds'' =
     Some (if length df > 1 then Fl (sample_std (to_float (map REB df))) else NaN) \<and>
   std_devs (calc_stats df) ''assists'' =
     Some (if length df > 1 then Fl (sample_std (to_float (map AST df))) else NaN) \<and>
   std_devs (calc_stats df) ''blocks'' =
     Some (if length df > 1 then Fl (sample_std (to_float (map BLK df))) else NaN) \<and>
   std_devs (calc_stats df) ''steals'' =
     Some (if length df > 1 then Fl (sample_std (to_float (map STL df))) else NaN) \<and>
   std_devs (calc_stats df) ''3pt'' =
     Some (if length df > 1 then Fl (sample_std (to_float (map FG3M df))) else NaN) \<and>
   (get_player_season_stats api pn se = Inr st \<longrightarrow>
      (\<exists>pid. PlayerGameLog api pid se \<noteq> [] \<and> st = calc_stats (PlayerGameLog api pid se)))"
proof -
  have "get_player_season_stats api pn se = Inr st \<longrightarrow>
      (\<exists>pid. PlayerGameLog api pid se \<noteq> [] \<and> st = calc_stats (PlayerGameLog api pid se))"
    using season_stats_Inr[of api pn se st] by blast
  then show ?thesis
    by (simp only: std_devs_calc series_std_sample length_map simp_thms)
qed

text \<open>
  Claim C2 as stated fails for a season of one game: the standard deviation of the
  points is NaN, which is not 0.
\<close>

theorem single_game_std_is_nan:
  "get_player_season_stats
     (static_api some_players some_teams (\<lambda>p s. [game ''LAL vs. GSW'' 30]))
     ''LeBron James'' ''2023-24'' = Inr (calc_stats [game ''LAL vs. GSW'' 30]) \<and>
   std_devs (calc_stats [game ''LAL vs. GSW'' 30]) ''points'' = Some NaN \<and>
   NaN \<noteq> Fl 0"
proof -
  let ?api = "static_api some_players some_teams (\<lambda>p s. [game ''LAL vs. GSW'' 30])"
  have fp: "find_player ?api ''LeBron James'' = Inr 2544" by code_simp
  have pg: "PlayerGameLog ?api pid se = [game ''LAL vs. GSW'' 30]" for pid se
    by (simp add: static_api_def)
  have 1: "get_player_season_stats ?api ''LeBron James'' ''2023-24'' =
      Inr (calc_stats [game ''LAL vs. GSW'' 30])"
    by (simp add: get_player_season_stats_def fp fetch_games_def pg)
  have 2: "std_devs (calc_stats [game ''LAL vs. GSW'' 30]) ''points'' = Some NaN"
    by (simp add: std_devs_calc series_std_def)
  show ?thesis using 1 2 by simp
qed

theorem std_dev_sample_or_nan_witness:
  "std_devs (calc_stats [game ''LAL vs. GSW'' 1, game ''LAL @ BOS'' 3]) ''points'' =
     Some (Fl (sqrt 2)) \<and>
   std_devs (calc_stats [game ''LAL vs. GSW'' 30]) ''points'' = Some NaN"
proof -
  have s: "sample_std (to_float (map PTS [game ''LAL vs. GSW'' 1, game ''LAL @ BOS'' 3])) =
      sqrt 2"
    by (simp add: sample_std_def to_float_def game_def)
  from std_dev_sample_or_nan[of "[game ''LAL vs. GSW'' 1, game ''LAL @ BOS'' 3]"] s
  have 1: "std_devs (calc_stats [game ''LAL vs. GSW'' 1, game ''LAL @ BOS'' 3]) ''points'' =
     Some (Fl (sqrt 2))" by simp
  from std_dev_sample_or_nan[of "[game ''LAL vs. GSW'' 30]"]
  have 2: "std_devs (calc_stats [game ''LAL vs. GSW'' 30]) ''points'' = Some NaN" by simp
  show ?thesis using 1 2 by (rule conjI)
qed


section \<open>Team resolution in the percentile path\<close>

text \<open>
  Claim C1 at the input \<open>ston\<close>. The full-name lookup finds three teams, so the
  resolver of \<^verbatim>\<open>formula.py\<close> stops there and reports them as ambiguous; the resolver of
  \<^verbatim>\<open>percentile.py\<close> asks the nickname lookup first and resolves to the one team whose
  nickname matches: it does not try the full name before the nickname.
\<close>

theorem percentile_path_nickname_before_full_name:
  "find_teams_by_full_name (static_api some_players some_teams (\<lambda>p s. [])) ''ston'' =
     [\<lparr>abbrev = ''BOS'', full_name = ''Boston Celtics'', nickname = ''Celtics''\<rparr>,
      \<lparr>abbrev = ''DET'', full_name = ''Detroit Pistons'', nickname = ''Pistons''\<rparr>,
      \<lparr>abbrev = ''HOU'', full_name = ''Houston Rockets'', nickname = ''Rockets''\<rparr>] \<and>
   find_team_formula (static_api some_players some_teams (\<lambda>p s. [])) ''ston'' =
     Inl (MultipleTeams ''ston''
       [''Boston Celtics (BOS)'', ''Detroit Pistons (DET)'', ''Houston Rockets (HOU)'']) \<and>
   find_team_percentile (static_api some_players some_teams (\<lambda>p s. [])) ''ston'' =
     Inr \<lparr>abbrev = ''DET'', full_name = ''Detroit Pistons'', nickname = ''Pistons''\<rparr>"
  by code_simp


text \<open>
  Claim C7 at the input \<open>Nets\<close>. The nickname lookup finds two teams, one of which has
  exactly that nickname. The nickname stage of \<^verbatim>\<open>formula.py\<close> narrows to that team; the
  resolver of \<^verbatim>\<open>percentile.py\<close> does not narrow and fails with both rows, carried as
  rows and not as formatted name and abbreviation pairs.
\<close>

theorem percentile_path_no_exact_match_narrowing:
  "find_teams_by_nickname (static_api some_players some_teams (\<lambda>p s. [])) ''Nets'' =
     [\<lparr>abbrev = ''BKN'', full_name = ''Brooklyn Nets'', nickname = ''Nets''\<rparr>,
      \<lparr>abbrev = ''CHA'', full_name = ''Charlotte Hornets'', nickname = ''Hornets''\<rparr>] \<and>
   nickname_stage (static_api some_players some_teams (\<lambda>p s. [])) ''Nets'' =
     [\<lparr>abbrev = ''BKN'', full_name = ''Brooklyn Nets'', nickname = ''Nets''\<rparr>] \<and>
   find_team_percentile (static_api some_players some_teams (\<lambda>p s. [])) ''Nets'' =
     Inl (MultipleTeamsRaw ''Nets''
       [\<lparr>abbrev = ''BKN'', full_name = ''Brooklyn Nets'', nickname = ''Nets''\<rparr>,
        \<lparr>abbrev = ''CHA'', full_name = ''Charlotte Hornets'', nickname = ''Hornets''\<rparr>])"
  by code_simp


end
